theory Spec2Isabelle
  imports
    Main
    "HOL-Library.Char_ord"
    "HOL-Library.List_Lexorder"
    "HOL-Library.Sublist"
    "HOL-Library.AList"
begin

section \<open>JavaScript strings\<close>

text \<open>
  A JavaScript string is modelled as a \<^typ>\<open>string\<close> with one \<^typ>\<open>char\<close> per code unit, so
  the model covers the strings whose code units are below 256. The built-in string
  operations the viewer calls are written out for that range.
\<close>

text \<open>\<^verbatim>\<open>String.prototype.toLowerCase\<close>: A-Z and the upper-case letters of Latin-1.\<close>

definition toLowerCase_char :: "char \<Rightarrow> char" where
  "toLowerCase_char c =
     (let n = (of_char c :: nat)
      in if (65 \<le> n \<and> n \<le> 90) \<or> (192 \<le> n \<and> n \<le> 222 \<and> n \<noteq> 215)
         then char_of (n + 32) else c)"

definition toLowerCase :: "string \<Rightarrow> string" where
  "toLowerCase s = map toLowerCase_char s"

text \<open>\<^verbatim>\<open>String.prototype.trim\<close>: white space and line terminators below 256.\<close>

definition is_white_space :: "char \<Rightarrow> bool" where
  "is_white_space c = ((of_char c :: nat) \<in> {9, 10, 11, 12, 13, 32, 160})"

definition trim :: "string \<Rightarrow> string" where
  "trim s = rev (dropWhile is_white_space (rev (dropWhile is_white_space s)))"

text \<open>\<^verbatim>\<open>hay.includes(q)\<close>: \<open>q\<close> occurs in \<open>hay\<close> as a contiguous substring.\<close>

fun includes_str :: "string \<Rightarrow> string \<Rightarrow> bool" where
  "includes_str [] q = (q = [])"
| "includes_str (h # hs) q = (prefix q (h # hs) \<or> includes_str hs q)"

text \<open>\<^verbatim>\<open>Array.prototype.join\<close> on an array of strings.\<close>

fun join :: "string \<Rightarrow> string list \<Rightarrow> string" where
  "join sep [] = []"
| "join sep [x] = x"
| "join sep (x # y # ys) = x @ sep @ join sep (y # ys)"

text \<open>
  \<^verbatim>\<open>s.replaceAll(c, rep)\<close> for a search string of one character and a replacement without
  \<^verbatim>\<open>$\<close> patterns, the only way the viewer calls it.
\<close>

definition replaceAll :: "char \<Rightarrow> string \<Rightarrow> string \<Rightarrow> string" where
  "replaceAll c rep s = concat (map (\<lambda>x. if x = c then rep else [x]) s)"

text \<open>
  \<^verbatim>\<open>const escapeHtml = (s) => (s ?? '').toString().replaceAll('&','&amp;')
      .replaceAll('<','&lt;').replaceAll('>','&gt;');\<close>
  The argument is a string or nullish; \<open>None\<close> stands for both \<^verbatim>\<open>null\<close> and
  \<^verbatim>\<open>undefined\<close>, which \<^verbatim>\<open>??\<close> does not tell apart.
\<close>

definition escapeHtml :: "string option \<Rightarrow> string" where
  "escapeHtml s =
     replaceAll (CHR ''>'') ''&gt;''
       (replaceAll (CHR ''<'') ''&lt;''
         (replaceAll (CHR ''&'') ''&amp;'' (case s of None \<Rightarrow> [] | Some t \<Rightarrow> t)))"

section \<open>Change records\<close>

datatype change_type = Insert | Replace | Delete | File_deleted

datatype context_kind = Block | Kv | Plist_kv

text \<open>The strings the JSON carries for the two enumerations.\<close>

fun type_name :: "change_type \<Rightarrow> string" where
  "type_name Insert = ''insert''"
| "type_name Replace = ''replace''"
| "type_name Delete = ''delete''"
| "type_name File_deleted = ''file-deleted''"

fun context_name :: "context_kind \<Rightarrow> string" where
  "context_name Block = ''block''"
| "context_name Kv = ''kv''"
| "context_name Plist_kv = ''plist-kv''"

text \<open>
  A change record as the viewer receives it from \<^verbatim>\<open>JSON.parse\<close>, typed by the schema of
  the specification (section 3): the file is a string, the change type and the context
  are of the two enumerations, the line numbers are integers or null, the other fields
  strings, or sequences of strings, or null. A field that is \<^verbatim>\<open>null\<close> or missing from the
  object is \<open>None\<close>: the viewer reads these fields only through \<^verbatim>\<open>??\<close>, \<^verbatim>\<open>||\<close> and
  \<^verbatim>\<open>filter(Boolean)\<close>. A dataset is an array of such records.
\<close>

record change =
  "file" :: string
  change_type :: change_type
  "context" :: context_kind
  line_old :: "int option"
  line_new :: "int option"
  property :: "string option"
  old :: "string option"
  new :: "string option"
  old_lines :: "string list option"
  new_lines :: "string list option"

section \<open>Errors\<close>

datatype error = SyntaxError | TypeError | Root_must_be_an_array

section \<open>groupBy\<close>

text \<open>
  \<^verbatim>\<open>const groupBy = (arr, key) =>
      arr.reduce((m, x) => ((m[x[key]] ||= []).push(x), m), {});\<close>

  The accumulator is a plain object literal, so the read \<^verbatim>\<open>m[k]\<close> also finds what
  \<^verbatim>\<open>Object.prototype\<close> provides. For such a name the read is truthy, \<^verbatim>\<open>||=\<close> assigns
  nothing, and \<^verbatim>\<open>.push\<close> is called on a value that has no such method: a TypeError.
  The own properties of the object are an association list in insertion order; \<open>key\<close>
  is the property read \<^verbatim>\<open>x[key]\<close> as a property name.
\<close>

definition Object_prototype_keys :: "string list" where
  "Object_prototype_keys =
     [''constructor'', ''__defineGetter__'', ''__defineSetter__'', ''hasOwnProperty'',
      ''__lookupGetter__'', ''__lookupSetter__'', ''isPrototypeOf'',
      ''propertyIsEnumerable'', ''toString'', ''valueOf'', ''__proto__'',
      ''toLocaleString'']"

type_synonym 'a object = "(string \<times> 'a) list"

definition groupBy_step ::
  "('a \<Rightarrow> string) \<Rightarrow> 'a list object \<Rightarrow> 'a \<Rightarrow> error + 'a list object" where
  "groupBy_step key m x =
     (case map_of m (key x) of
        Some g \<Rightarrow> Inr (AList.update (key x) (g @ [x]) m)
      | None \<Rightarrow>
          if key x \<in> set Object_prototype_keys then Inl TypeError
          else Inr (m @ [(key x, [x])]))"

fun reduce_groupBy ::
  "('a \<Rightarrow> string) \<Rightarrow> 'a list object \<Rightarrow> 'a list \<Rightarrow> error + 'a list object" where
  "reduce_groupBy key m [] = Inr m"
| "reduce_groupBy key m (x # xs) =
     (case groupBy_step key m x of
        Inl e \<Rightarrow> Inl e
      | Inr m' \<Rightarrow> reduce_groupBy key m' xs)"

definition groupBy :: "'a list \<Rightarrow> ('a \<Rightarrow> string) \<Rightarrow> error + 'a list object" where
  "groupBy arr key = reduce_groupBy key [] arr"

section \<open>Object.keys and the default sort\<close>

text \<open>
  \<^verbatim>\<open>Object.keys\<close> lists the own properties that are array indices first, in
  ascending numeric order, and the other names after them in insertion order.
  \<^verbatim>\<open>Array.prototype.sort\<close> without a comparator orders strings by their code units,
  which is \<^const>\<open>sort\<close> on \<^typ>\<open>string\<close>.
\<close>

definition is_digit :: "char \<Rightarrow> bool" where
  "is_digit c = (48 \<le> (of_char c :: nat) \<and> (of_char c :: nat) \<le> 57)"

definition index_value :: "string \<Rightarrow> int" where
  "index_value s = foldl (\<lambda>n c. 10 * n + (of_char c - 48)) 0 s"

definition is_array_index :: "string \<Rightarrow> bool" where
  "is_array_index s =
     (s \<noteq> [] \<and> list_all is_digit s \<and> (s = ''0'' \<or> hd s \<noteq> CHR ''0'')
      \<and> index_value s < 4294967295)"

definition Object_keys :: "'a object \<Rightarrow> string list" where
  "Object_keys obj =
     (let ks = map fst obj
      in sort_key index_value (filter is_array_index ks)
         @ filter (\<lambda>k. \<not> is_array_index k) ks)"

section \<open>Rendering\<close>

text \<open>
  The markup the viewer writes is a fixed template with holes. A rendered element is
  modelled by the template it comes from (a constructor) and the values interpolated
  into its holes, in the order of the template; the constant markup around them is left
  out. Numbers are kept as numbers.
\<close>

text \<open>\<^verbatim>\<open>badgeForType\<close>, a switch on the string.\<close>

definition badgeForType :: "string \<Rightarrow> string" where
  "badgeForType t =
     (if t = ''insert'' then ''bg-emerald-900 text-emerald-100 border-emerald-700''
      else if t = ''replace'' then ''bg-amber-900 text-amber-100 border-amber-700''
      else if t = ''delete'' then ''bg-rose-900 text-rose-100 border-rose-700''
      else if t = ''file-deleted'' then ''bg-gray-800 text-gray-200 border-gray-700''
      else ''bg-gray-800 text-gray-200 border-gray-700'')"

text \<open>The badge \<^verbatim>\<open>typeBadge\<close>: its class from \<open>badgeForType\<close> and its text.\<close>

type_synonym type_badge = "string \<times> string"

text \<open>The content of a \<^verbatim>\<open><code>\<close> element: \<^verbatim>\<open>oldBlock || dash\<close>.\<close>

datatype code_text = Em_dash | Code string

text \<open>
  The three cards of \<^verbatim>\<open>renderChangeItem\<close>. \<open>Kv_card\<close>: property (written to the title
  attribute and to the element), line, badge, baseline value, new value, copy index.
  \<open>File_removed_card\<close>: badge, copy index. \<open>Block_card\<close>: line, badge, baseline lines, new
  lines, copy index. A line of \<open>None\<close> is printed as \<^verbatim>\<open>-\<close>.
\<close>

datatype card =
    Kv_card string "int option" type_badge string string nat
  | File_removed_card type_badge nat
  | Block_card "int option" type_badge code_text code_text nat

definition typeBadge :: "change \<Rightarrow> type_badge" where
  "typeBadge ch = (badgeForType (type_name (change_type ch)), type_name (change_type ch))"

definition line_of :: "change \<Rightarrow> int option" where
  "line_of ch = (case line_new ch of Some n \<Rightarrow> Some n | None \<Rightarrow> line_old ch)"

definition or_dash :: "string \<Rightarrow> code_text" where
  "or_dash b = (if b = [] then Em_dash else Code b)"

definition renderChangeItem :: "change \<Rightarrow> nat \<Rightarrow> card" where
  "renderChangeItem ch idx =
     (if context ch = Kv \<or> context ch = Plist_kv then
        Kv_card
          (escapeHtml (Some (case property ch of None \<Rightarrow> ''(unknown)'' | Some p \<Rightarrow> p)))
          (line_of ch) (typeBadge ch) (escapeHtml (old ch)) (escapeHtml (new ch)) idx
      else if change_type ch = File_deleted then
        File_removed_card (typeBadge ch) idx
      else
        (let oldBlock = join [CHR 0x0A]
               (map (\<lambda>l. ''- '' @ escapeHtml (Some l))
                  (case old_lines ch of None \<Rightarrow> [] | Some ls \<Rightarrow> ls));
             newBlock = join [CHR 0x0A]
               (map (\<lambda>l. ''+ '' @ escapeHtml (Some l))
                  (case new_lines ch of None \<Rightarrow> [] | Some ls \<Rightarrow> ls))
         in Block_card (line_of ch) (typeBadge ch) (or_dash oldBlock) (or_dash newBlock) idx))"

text \<open>
  One \<^verbatim>\<open><details>\<close> section of \<^verbatim>\<open>renderFiles\<close>: the escaped file name, the badges
  (class, change type, count) and the cards of its records.
\<close>

record section_view =
  section_title :: string
  section_badges :: "(string \<times> string \<times> nat) list"
  section_items :: "card list"

text \<open>
  \<^verbatim>\<open>items.reduce((m,c)=>{m[c.change_type]=(m[c.change_type]||0)+1; return m;},{})\<close>:
  the change types of the records with their counts, in order of first occurrence.
\<close>

definition count_types :: "change list \<Rightarrow> nat object" where
  "count_types items =
     foldl (\<lambda>m c. AList.update (type_name (change_type c))
                    ((case map_of m (type_name (change_type c)) of None \<Rightarrow> 0 | Some n \<Rightarrow> n) + 1) m)
       [] items"

text \<open>
  \<^verbatim>\<open>items.map(item => { ... })\<close> with its two side effects: the record is pushed to
  \<^verbatim>\<open>CURRENT_RENDERED\<close> and \<^verbatim>\<open>globalIndex\<close> is incremented.
\<close>

fun render_items :: "change list \<Rightarrow> nat \<times> change list \<Rightarrow> card list \<times> (nat \<times> change list)" where
  "render_items [] (globalIndex, rendered) = ([], (globalIndex, rendered))"
| "render_items (item # rest) (globalIndex, rendered) =
     (let markup = renderChangeItem item globalIndex;
          (ms, s) = render_items rest (Suc globalIndex, rendered @ [item])
      in (markup # ms, s))"

text \<open>
  \<^verbatim>\<open>groups[fname]\<close> for a name taken from \<^verbatim>\<open>Object.keys(groups)\<close>; the name is always
  an own property there.
\<close>

definition group_items :: "change list object \<Rightarrow> string \<Rightarrow> change list" where
  "group_items groups fname = (case map_of groups fname of Some items \<Rightarrow> items | None \<Rightarrow> [])"

fun render_sections ::
  "change list object \<Rightarrow> string list \<Rightarrow> nat \<times> change list
     \<Rightarrow> section_view list \<times> (nat \<times> change list)" where
  "render_sections groups [] s = ([], s)"
| "render_sections groups (fname # rest) s =
     (let items = group_items groups fname;
          badges = map (\<lambda>(k, v). (badgeForType k, k, v)) (count_types items);
          (renderedItems, s1) = render_items items s;
          (secs, s2) = render_sections groups rest s1
      in (\<lparr>section_title = escapeHtml (Some fname), section_badges = badges,
            section_items = renderedItems\<rparr> # secs, s2))"

section \<open>The state of the page\<close>

datatype page_size = All_rows | Size int

datatype pager_label = No_results | Showing int int int int int

datatype alert = Invalid_JSON error | Please_drop_a_JSON_file

text \<open>
  The module-level variables of the script, and the parts of the document it reads and
  writes: the three filter inputs, the paste text area, the summary, the file list, the
  pager (label, previous disabled, next disabled), the paste dialog, the loading
  indicator and the alerts shown so far. Numbers are integers.
\<close>

record state =
  DATA :: "change list"
  LAST_FILTERED :: "change list"
  PAGE :: int
  PAGE_SIZE :: page_size
  CURRENT_RENDERED :: "change list"
  q_value :: string
  typeFilter_value :: string
  ctxFilter_value :: string
  pasteArea_value :: string
  summary_el :: "(string \<times> nat) list"
  files_el :: "section_view list"
  pager_el :: "pager_label \<times> bool \<times> bool"
  dlg_open :: bool
  loadingEl :: bool
  alerts :: "alert list"

definition renderSummary :: "change list \<Rightarrow> state \<Rightarrow> state" where
  "renderSummary changes st =
     (let total = length changes;
          counts = (\<lambda>t. length (filter (\<lambda>c. type_name (change_type c) = t) changes));
          kvCount = length (filter (\<lambda>c. context c = Kv \<or> context c = Plist_kv) changes);
          blockCount = length (filter (\<lambda>c. context c = Block) changes)
      in st\<lparr>summary_el :=
            [(''Total changes'', total), (''Replacements'', counts ''replace''),
             (''Insertions'', counts ''insert''), (''Deletions'', counts ''delete''),
             (''KV / Plist pairs'', kvCount), (''Raw blocks'', blockCount)]\<rparr>)"

text \<open>
  \<^verbatim>\<open>renderFiles\<close>. \<^verbatim>\<open>groupBy\<close> runs first; when it throws, nothing has been written.
\<close>

definition renderFiles :: "change list \<Rightarrow> state \<Rightarrow> error option \<times> state" where
  "renderFiles changes st =
     (case groupBy changes file of
        Inl e \<Rightarrow> (Some e, st)
      | Inr groups \<Rightarrow>
          (let fileNames = sort (Object_keys groups);
               (fileMarkup, (globalIndex, rendered)) = render_sections groups fileNames (0, [])
           in (None, st\<lparr>CURRENT_RENDERED := rendered, files_el := fileMarkup\<rparr>)))"

section \<open>Filters\<close>

text \<open>\<^verbatim>\<open>.filter(Boolean)\<close> on strings and nullish values keeps the non-empty strings.\<close>

fun filter_Boolean :: "string option list \<Rightarrow> string list" where
  "filter_Boolean [] = []"
| "filter_Boolean (None # vs) = filter_Boolean vs"
| "filter_Boolean (Some s # vs) = (if s = [] then filter_Boolean vs else s # filter_Boolean vs)"

definition lines_or_empty :: "string list option \<Rightarrow> string list" where
  "lines_or_empty ls = (case ls of None \<Rightarrow> [] | Some xs \<Rightarrow> xs)"

definition hay :: "change \<Rightarrow> string" where
  "hay c =
     toLowerCase
       (join '' ''
          (filter_Boolean
             [Some (file c), property c, old c, new c,
              Some (join [CHR 0x0A] (lines_or_empty (old_lines c))),
              Some (join [CHR 0x0A] (lines_or_empty (new_lines c)))]))"

text \<open>The callback of \<^verbatim>\<open>DATA.filter\<close> in \<^verbatim>\<open>applyFilters\<close>.\<close>

definition keeps :: "string \<Rightarrow> string \<Rightarrow> string \<Rightarrow> change \<Rightarrow> bool" where
  "keeps q tf cf c =
     (if tf \<noteq> [] \<and> type_name (change_type c) \<noteq> tf then False
      else if cf \<noteq> [] \<and> context_name (context c) \<noteq> cf then False
      else if q = [] then True
      else includes_str (hay c) q)"

section \<open>Paging\<close>

record page_info =
  total :: int
  size' :: int
  totalPages :: int
  page :: int
  start :: int
  end' :: int
  pageItems :: "change list"

text \<open>\<^verbatim>\<open>Math.ceil(a / b)\<close> on integers, \<open>b\<close> not zero.\<close>

definition ceil_div :: "int \<Rightarrow> int \<Rightarrow> int" where
  "ceil_div a b = - ((- a) div b)"

text \<open>\<^verbatim>\<open>Array.prototype.slice(start, end)\<close> with integer arguments.\<close>

definition slice :: "'a list \<Rightarrow> int \<Rightarrow> int \<Rightarrow> 'a list" where
  "slice xs s e =
     (let len = int (length xs);
          k = (if s < 0 then max (len + s) 0 else min s len);
          final = (if e < 0 then max (len + e) 0 else min e len)
      in take (nat (final - k)) (drop (nat k) xs))"

definition computePage :: "state \<Rightarrow> page_info" where
  "computePage st =
     (let total = int (length (LAST_FILTERED st));
          size = (case PAGE_SIZE st of All_rows \<Rightarrow> total | Size n \<Rightarrow> n);
          totalPages = (if size \<noteq> 0 then max 1 (ceil_div total (if size \<noteq> 0 then size else 1)) else 1);
          clampedPage = min (max 1 (PAGE st)) totalPages;
          start = (if size = 0 then 0 else (clampedPage - 1) * size);
          end = (if size = 0 then total else min (start + size) total);
          pageItems = slice (LAST_FILTERED st) start end
      in \<lparr>total = total, size' = size, totalPages = totalPages, page = clampedPage,
          start = start, end' = end, pageItems = pageItems\<rparr>)"

definition renderPager :: "page_info \<Rightarrow> state \<Rightarrow> state" where
  "renderPager info st =
     st\<lparr>pager_el :=
          (if total info = 0 then No_results
           else Showing (start info + 1) (end' info) (total info) (page info) (totalPages info),
           page info \<le> 1, page info \<ge> totalPages info)\<rparr>"

definition updatePage :: "state \<Rightarrow> error option \<times> state" where
  "updatePage st =
     (let info = computePage st;
          st1 = st\<lparr>PAGE := page info\<rparr>
      in case renderFiles (pageItems info) st1 of
           (Some e, st2) \<Rightarrow> (Some e, st2)
         | (None, st2) \<Rightarrow> (None, renderPager info st2))"

definition applyFilters :: "state \<Rightarrow> error option \<times> state" where
  "applyFilters st =
     (let q = trim (toLowerCase (q_value st));
          tf = typeFilter_value st;
          cf = ctxFilter_value st;
          st1 = st\<lparr>LAST_FILTERED := filter (keeps q tf cf) (DATA st)\<rparr>;
          st2 = st1\<lparr>PAGE := 1\<rparr>;
          st3 = renderSummary (LAST_FILTERED st2) st2
      in updatePage st3)"

section \<open>The page before a dataset is loaded\<close>

text \<open>
  The initial values of the module-level variables (\<^verbatim>\<open>DATA = []\<close>, \<^verbatim>\<open>PAGE = 1\<close>,
  \<^verbatim>\<open>PAGE_SIZE = 50\<close>) in a document with empty inputs and nothing rendered.
\<close>

definition blank_page :: state where
  "blank_page =
     \<lparr>DATA = [], LAST_FILTERED = [], PAGE = 1, PAGE_SIZE = Size 50, CURRENT_RENDERED = [],
      q_value = [], typeFilter_value = [], ctxFilter_value = [], pasteArea_value = [],
      summary_el = [], files_el = [], pager_el = (No_results, True, True), dlg_open = False,
      loadingEl = False, alerts = []\<rparr>"

section \<open>The search fields, as the specification names them\<close>

text \<open>
  The fields the free-text search looks at, in the words of the specification: the file,
  the property, the old and the new value, and the joined line-content fields, a nullish
  value counting as the empty string. \<open>concatenation\<close> is these fields put together end
  to end.
\<close>

definition text_or_empty :: "string option \<Rightarrow> string" where
  "text_or_empty v = (case v of None \<Rightarrow> [] | Some s \<Rightarrow> s)"

definition search_fields :: "change \<Rightarrow> string list" where
  "search_fields r =
     [file r, text_or_empty (property r), text_or_empty (old r), text_or_empty (new r),
      join [CHR 0x0A] (lines_or_empty (old_lines r)),
      join [CHR 0x0A] (lines_or_empty (new_lines r))]"

definition concatenation :: "change \<Rightarrow> string" where
  "concatenation r = concat (search_fields r)"

text \<open>A record of the file \<^verbatim>\<open>a\<close> and the property \<^verbatim>\<open>b\<close>, and a page that searches for \<^verbatim>\<open>ab\<close>.\<close>

definition record_a_b :: change where
  "record_a_b =
     \<lparr>file = ''a'', change_type = Replace, context = Kv, line_old = Some 1, line_new = Some 1,
      property = Some ''b'', old = Some ''1'', new = Some ''2'',
      old_lines = None, new_lines = None\<rparr>"

definition search_ab :: state where
  "search_ab = blank_page\<lparr>DATA := [record_a_b], q_value := ''ab''\<rparr>"

section \<open>Loading a dataset\<close>

text \<open>
  \<^verbatim>\<open>JSON.parse\<close> is a built-in and a parameter of the handlers: \<open>None\<close> when it throws
  its SyntaxError, the parsed root otherwise. The root is an array of change records or
  a value that is not an array.
\<close>

datatype json = JArray "change list" | JNonArray

definition show_alert :: "alert \<Rightarrow> state \<Rightarrow> state" where
  "show_alert a st = st\<lparr>alerts := alerts st @ [a]\<rparr>"

text \<open>\<^verbatim>\<open>catch (err) { alert('Invalid JSON: ' + err.message); }\<close>\<close>

definition catch_alert :: "error option \<times> state \<Rightarrow> state" where
  "catch_alert r = (case r of (Some err, st) \<Rightarrow> show_alert (Invalid_JSON err) st | (None, st) \<Rightarrow> st)"

text \<open>
  \<^verbatim>\<open>reader.onload\<close> of the file chooser; \<open>result\<close> is \<^verbatim>\<open>reader.result\<close>, the text of the
  chosen file.
\<close>

definition fileInput_onload :: "(string \<Rightarrow> json option) \<Rightarrow> string \<Rightarrow> state \<Rightarrow> state" where
  "fileInput_onload JSON_parse result st =
     catch_alert
       (case JSON_parse result of
          None \<Rightarrow> (Some SyntaxError, st)
        | Some JNonArray \<Rightarrow> (Some Root_must_be_an_array, st)
        | Some (JArray parsed) \<Rightarrow> applyFilters (st\<lparr>DATA := parsed\<rparr>))"

text \<open>
  A file handed over by the file chooser or by a drop: its MIME type and its text. The
  read by \<^verbatim>\<open>FileReader.readAsText\<close> is taken to succeed and its \<^verbatim>\<open>onload\<close> to run next.
\<close>

record file_blob =
  blob_type :: string
  blob_text :: string

definition fileInput_change ::
  "(string \<Rightarrow> json option) \<Rightarrow> file_blob option \<Rightarrow> state \<Rightarrow> state" where
  "fileInput_change JSON_parse f st =
     (case f of None \<Rightarrow> st | Some b \<Rightarrow> fileInput_onload JSON_parse (blob_text b) st)"

text \<open>The click handler of \<^verbatim>\<open>pasteApply\<close>; the text is the value of \<^verbatim>\<open>pasteArea\<close>.\<close>

definition pasteApply_click :: "(string \<Rightarrow> json option) \<Rightarrow> state \<Rightarrow> state" where
  "pasteApply_click JSON_parse st =
     catch_alert
       (case JSON_parse (pasteArea_value st) of
          None \<Rightarrow> (Some SyntaxError, st)
        | Some JNonArray \<Rightarrow> (Some Root_must_be_an_array, st)
        | Some (JArray parsed) \<Rightarrow> applyFilters (st\<lparr>DATA := parsed, dlg_open := False\<rparr>))"

definition showLoading :: "state \<Rightarrow> state" where
  "showLoading st = (if loadingEl st then st else st\<lparr>loadingEl := True\<rparr>)"

definition hideLoading :: "state \<Rightarrow> state" where
  "hideLoading st = (if \<not> loadingEl st then st else st\<lparr>loadingEl := False\<rparr>)"

text \<open>\<^verbatim>\<open>reader.onload\<close> of the drop handler.\<close>

definition drop_onload :: "(string \<Rightarrow> json option) \<Rightarrow> string \<Rightarrow> state \<Rightarrow> state" where
  "drop_onload JSON_parse result st =
     hideLoading
       (catch_alert
          (case JSON_parse result of
             None \<Rightarrow> (Some SyntaxError, st)
           | Some JNonArray \<Rightarrow> (Some Root_must_be_an_array, st)
           | Some (JArray parsed) \<Rightarrow> applyFilters (st\<lparr>DATA := parsed\<rparr>)))"

text \<open>The \<^verbatim>\<open>drop\<close> listener on the window; \<^verbatim>\<open>file.type.match(/json|text/)\<close>.\<close>

definition window_drop ::
  "(string \<Rightarrow> json option) \<Rightarrow> file_blob option \<Rightarrow> state \<Rightarrow> state" where
  "window_drop JSON_parse f st =
     (case f of
        None \<Rightarrow> st
      | Some b \<Rightarrow>
          if \<not> (includes_str (blob_type b) ''json'' \<or> includes_str (blob_type b) ''text'')
          then show_alert Please_drop_a_JSON_file st
          else drop_onload JSON_parse (blob_text b) (showLoading st))"


text \<open>
  An instance of the parameter \<open>JSON_parse\<close> on three texts: the empty array, the empty
  object, and anything else taken as malformed.
\<close>

definition parse_three :: "string \<Rightarrow> json option" where
  "parse_three s =
     (if s = ''[]'' then Some (JArray [])
      else if s = ''{}'' then Some JNonArray
      else None)"

text \<open>The built-in sample of the \<^verbatim>\<open>loadSample\<close> button.\<close>

definition sample :: "change list" where
  \<open>sample =
     [\<lparr>file = ''Scripts/Powershell/Script Data/intunecd_appreg.ps1'',
       change_type = Replace, context = Block, line_old = Some 14, line_new = Some 14,
       property = None, old = None, new = None,
       old_lines = Some [''$appName = "IntuneCD-Monitor"''],
       new_lines = Some [''$appName = "IntuneCD"'']\<rparr>,
      \<lparr>file = ''Settings Catalog/Baseline - W365_mdm.json'',
       change_type = Replace, context = Kv, line_old = Some 28, line_new = Some 28,
       property = Some ''value'',
       old = Some ''"device_vendor_msft_policy_config_devicelock_preventenablinglockscreencamera_1"'',
       new = Some ''"device_vendor_msft_policy_config_devicelock_preventenablinglockscreencamera_0"'',
       old_lines = None, new_lines = None\<rparr>,
      \<lparr>file = ''Assignment Report/report.json'',
       change_type = File_deleted, context = Block, line_old = Some 1, line_new = None,
       property = None, old = None, new = None,
       old_lines = Some [], new_lines = Some []\<rparr>]\<close>

definition loadSample_click :: "state \<Rightarrow> state" where
  "loadSample_click st = snd (applyFilters (st\<lparr>DATA := sample\<rparr>))"

section \<open>The Change Extractor\<close>

text \<open>
  Modelled from the spec: the Change Extractor (the script \<^verbatim>\<open>gitdiffer.py\<close>) is not among
  the sources; the definitions of this section follow section 4.1 of the specification.
  What the specification leaves to the file format is a parameter: the detection of a
  structured format from the path, the parser of such a file into its keys, values and
  line numbers (\<open>None\<close> when the file is malformed), and the position recorded for a
  deleted file.
\<close>

datatype kv_format = Json_like | Plist_style

record extractor_env =
  detect_format :: "string \<Rightarrow> kv_format option"
  parse_kv :: "kv_format \<Rightarrow> string \<Rightarrow> (string \<times> string \<times> int) list option"
  deleted_position :: "string \<Rightarrow> int option"

text \<open>
  Modelled from the spec: the content of a file as its lines, for the line-level diff;
  a final newline does not start another line.
\<close>

fun split_lines :: "string \<Rightarrow> string \<Rightarrow> string list" where
  "split_lines cur [] = (if cur = [] then [] else [cur])"
| "split_lines cur (c # cs) =
     (if c = CHR 0x0A then cur # split_lines [] cs else split_lines (cur @ [c]) cs)"

definition splitlines :: "string \<Rightarrow> string list" where
  "splitlines s = split_lines [] s"

text \<open>
  Modelled from the spec: the line-diff primitive the Extractor relies on, as a shortest
  script of kept, removed and added lines.
\<close>

datatype edit = Keep string | Del string | Add string

text \<open>Modelled from the spec: the number of removed and added lines of a script.\<close>

definition cost :: "edit list \<Rightarrow> nat" where
  "cost es = length (filter (\<lambda>e. case e of Keep _ \<Rightarrow> False | _ \<Rightarrow> True) es)"

fun diff_lines :: "string list \<Rightarrow> string list \<Rightarrow> edit list" where
  "diff_lines [] ys = map Add ys"
| "diff_lines (x # xs) [] = map Del (x # xs)"
| "diff_lines (x # xs) (y # ys) =
     (if x = y then Keep x # diff_lines xs ys
      else (let a = Del x # diff_lines xs (y # ys);
                b = Add y # diff_lines (x # xs) ys
            in if cost a \<le> cost b then a else b))"

text \<open>
  Modelled from the spec: section 4.1, item 3. A maximal run of removed and added lines is one
  record; only added lines make an insert, only removed lines a delete, both a replace.
  The line numbers are those of the first affected line on each side, 1-based, and null
  on a side without lines.
\<close>

definition emit :: "string \<Rightarrow> int \<Rightarrow> int \<Rightarrow> string list \<Rightarrow> string list \<Rightarrow> change list" where
  "emit path i j removed added =
     (if removed = [] \<and> added = [] then []
      else [\<lparr>file = path,
             change_type = (if removed = [] then Insert else if added = [] then Delete else Replace),
             context = Block,
             line_old = (if removed = [] then None else Some i),
             line_new = (if added = [] then None else Some j),
             property = None, old = None, new = None,
             old_lines = Some removed, new_lines = Some added\<rparr>])"

fun collapse ::
  "string \<Rightarrow> int \<Rightarrow> int \<Rightarrow> string list \<Rightarrow> string list \<Rightarrow> edit list \<Rightarrow> change list" where
  "collapse path i j removed added [] = emit path i j removed added"
| "collapse path i j removed added (Keep l # es) =
     emit path i j removed added
     @ collapse path (i + int (length removed) + 1) (j + int (length added) + 1) [] [] es"
| "collapse path i j removed added (Del l # es) = collapse path i j (removed @ [l]) added es"
| "collapse path i j removed added (Add l # es) = collapse path i j removed (added @ [l]) es"

text \<open>
  Modelled from the spec: the block records of a file, from the line diff of its two
  contents; line numbers start at 1.
\<close>

definition block_diff :: "string \<Rightarrow> string \<Rightarrow> string \<Rightarrow> change list" where
  "block_diff path old_content new_content =
     collapse path 1 1 [] [] (diff_lines (splitlines old_content) (splitlines new_content))"

text \<open>
  Modelled from the spec: section 4.1, item 2. The keys of the new version give the
  inserts and the replacements, the keys only the old version has give the deletes; a
  key with the same value on both sides gives nothing. A parsed file is the list of its
  keys, each with its value as written in the file and its line number. A key-value
  record carries the key as its property, the values as \<open>old\<close> and \<open>new\<close>, null on the side
  that lacks the key, and no line content.
\<close>

definition kv_context :: "kv_format \<Rightarrow> context_kind" where
  "kv_context fmt = (case fmt of Json_like \<Rightarrow> Kv | Plist_style \<Rightarrow> Plist_kv)"

definition kv_record ::
  "string \<Rightarrow> kv_format \<Rightarrow> string \<Rightarrow> change_type \<Rightarrow> (string \<times> int) option \<Rightarrow> (string \<times> int) option
     \<Rightarrow> change" where
  "kv_record path fmt k t ov nv =
     \<lparr>file = path, change_type = t, context = kv_context fmt,
      line_old = map_option snd ov, line_new = map_option snd nv,
      property = Some k, old = map_option fst ov, new = map_option fst nv,
      old_lines = None, new_lines = None\<rparr>"

definition kv_diff ::
  "string \<Rightarrow> kv_format \<Rightarrow> (string \<times> string \<times> int) list \<Rightarrow> (string \<times> string \<times> int) list
     \<Rightarrow> change list" where
  "kv_diff path fmt olds news =
     concat (map (\<lambda>k. case (map_of olds k, map_of news k) of
                        (None, Some nv) \<Rightarrow> [kv_record path fmt k Insert None (Some nv)]
                      | (Some ov, Some nv) \<Rightarrow>
                          if fst ov = fst nv then []
                          else [kv_record path fmt k Replace (Some ov) (Some nv)]
                      | _ \<Rightarrow> [])
               (remdups (map fst news)))
     @ concat (map (\<lambda>k. case (map_of olds k, map_of news k) of
                          (Some ov, None) \<Rightarrow> [kv_record path fmt k Delete (Some ov) None]
                        | _ \<Rightarrow> [])
                 (remdups (map fst olds)))"

text \<open>
  Modelled from the spec: section 4.1, items 1 to 3. The contents are \<open>None\<close> when absent. An
  absent new content gives the single file-deleted record; a recognised format whose
  two versions parse gives the key-value records; everything else, a malformed
  structured file included, gives the block records. An absent old content is the
  empty file.
\<close>

definition extract_changes ::
  "extractor_env \<Rightarrow> string \<Rightarrow> string option \<Rightarrow> string option \<Rightarrow> change list" where
  "extract_changes env path old_content new_content =
     (case new_content of
        None \<Rightarrow>
          [\<lparr>file = path, change_type = File_deleted, context = Block,
            line_old = deleted_position env path, line_new = None,
            property = None, old = None, new = None,
            old_lines = Some [], new_lines = Some []\<rparr>]
      | Some n \<Rightarrow>
          (let oc = (case old_content of None \<Rightarrow> [] | Some s \<Rightarrow> s)
           in case detect_format env path of
                None \<Rightarrow> block_diff path oc n
              | Some fmt \<Rightarrow>
                  (case (parse_kv env fmt oc, parse_kv env fmt n) of
                     (Some olds, Some news) \<Rightarrow> kv_diff path fmt olds news
                   | _ \<Rightarrow> block_diff path oc n)))"

text \<open>
  Modelled from the spec: section 3, first invariant. Which of the two pairs of fields
  a record populates, by its context. A key-value record has an old or a new value and
  no line content; a block record has its two line sequences and neither an old nor a
  new value.
\<close>

definition pair_by_context :: "change \<Rightarrow> bool" where
  "pair_by_context r =
     (((context r = Kv \<or> context r = Plist_kv) \<longrightarrow>
         (old r \<noteq> None \<or> new r \<noteq> None)
         \<and> lines_or_empty (old_lines r) = [] \<and> lines_or_empty (new_lines r) = [])
      \<and> (context r = Block \<longrightarrow>
           old_lines r \<noteq> None \<and> new_lines r \<noteq> None \<and> old r = None \<and> new r = None))"

text \<open>
  Modelled from the spec: an instance of the parameters of the Extractor, after the
  scenarios 2 and 4 of section 8. Paths ending in \<^verbatim>\<open>.json\<close> are
  structured, and the parser knows the two versions of one configuration file, the
  second of which changes \<^verbatim>\<open>timeout\<close> and adds \<^verbatim>\<open>retries\<close>.
\<close>

definition config_v1 :: string where
  \<open>config_v1 = ''{"timeout": 30}''\<close>

definition config_v2 :: string where
  \<open>config_v2 = ''{"timeout": 60, "retries": 3}''\<close>

definition example_env :: extractor_env where
  "example_env =
     \<lparr>detect_format = (\<lambda>path. if suffix ''.json'' path then Some Json_like else None),
      parse_kv = (\<lambda>fmt s.
         if s = config_v1 then Some [(''timeout'', ''30'', 1)]
         else if s = config_v2 then Some [(''timeout'', ''60'', 1), (''retries'', ''3'', 1)]
         else None),
      deleted_position = (\<lambda>path. Some 1)\<rparr>"

section \<open>Properties of the string helpers\<close>

lemma includes_iff_sublist: "includes_str h q \<longleftrightarrow> sublist q h"
  by (induction h) (simp_all add: sublist_Cons_right)

lemma set_replaceAll:
  "set (replaceAll c rep s) = (set s - {c}) \<union> (if c \<in> set s then set rep else {})"
  by (induction s) (auto simp: replaceAll_def)

text \<open>
  C8. For every argument, \<^verbatim>\<open>null\<close> and \<^verbatim>\<open>undefined\<close> included, \<open>escapeHtml\<close> returns a
  string with no \<^verbatim>\<open><\<close> and no \<^verbatim>\<open>>\<close> in it, and the nullish argument gives the empty
  string.
\<close>

theorem escapeHtml_no_angle_brackets:
  "CHR ''<'' \<notin> set (escapeHtml s) \<and> CHR ''>'' \<notin> set (escapeHtml s) \<and> escapeHtml None = []"
  by (simp add: escapeHtml_def set_replaceAll) (simp add: replaceAll_def)


section \<open>Properties of groupBy\<close>










text \<open>
  C10. \<open>groupBy\<close> does not place every element in a group: an element whose key is a
  name that \<^verbatim>\<open>Object.prototype\<close> provides makes it throw. Here the array holds one
  record of the file \<^verbatim>\<open>constructor\<close>.
\<close>

theorem groupBy_inherited_name_throws:
  "groupBy [\<lparr>file = ''constructor'', change_type = Insert, context = Block, line_old = None,
             line_new = Some 1, property = None, old = None, new = None,
             old_lines = Some [], new_lines = Some [''x'']\<rparr>] file
   = Inl TypeError"
  by (simp add: groupBy_def groupBy_step_def Object_prototype_keys_def)


section \<open>Properties of renderFiles\<close>
















section \<open>Properties of paging\<close>


lemma renderFiles_frame:
  "LAST_FILTERED (snd (renderFiles cs st)) = LAST_FILTERED st
   \<and> PAGE_SIZE (snd (renderFiles cs st)) = PAGE_SIZE st
   \<and> PAGE (snd (renderFiles cs st)) = PAGE st
   \<and> DATA (snd (renderFiles cs st)) = DATA st"
  by (simp add: renderFiles_def Let_def split_beta split: sum.splits)

lemma updatePage_frame:
  "LAST_FILTERED (snd (updatePage st)) = LAST_FILTERED st
   \<and> PAGE_SIZE (snd (updatePage st)) = PAGE_SIZE st
   \<and> PAGE (snd (updatePage st)) = page (computePage st)
   \<and> DATA (snd (updatePage st)) = DATA st"
proof -
  let ?st1 = "st\<lparr>PAGE := page (computePage st)\<rparr>"
  let ?r = "renderFiles (pageItems (computePage st)) ?st1"
  have "snd (updatePage st) = snd ?r \<or> snd (updatePage st) = renderPager (computePage st) (snd ?r)"
    by (cases ?r) (auto simp: updatePage_def Let_def split: option.splits)
  then show ?thesis
    using renderFiles_frame [of "pageItems (computePage st)" ?st1]
    by (auto simp: renderPager_def)
qed








section \<open>Properties of the filter\<close>

lemma applyFilters_frame:
  "LAST_FILTERED (snd (applyFilters st))
     = filter (keeps (trim (toLowerCase (q_value st))) (typeFilter_value st) (ctxFilter_value st)) (DATA st)
   \<and> DATA (snd (applyFilters st)) = DATA st"
  by (simp add: applyFilters_def Let_def updatePage_frame renderSummary_def)

lemma filter_Boolean_eq:
  "filter_Boolean vs = filter (\<lambda>s. s \<noteq> []) (map text_or_empty vs)"
  by (induction vs rule: filter_Boolean.induct) (simp_all add: text_or_empty_def)

lemma hay_eq: "hay r = toLowerCase (join '' '' (filter (\<lambda>s. s \<noteq> []) (search_fields r)))"
  by (simp add: hay_def filter_Boolean_eq search_fields_def text_or_empty_def)

lemma keeps_iff:
  "keeps q tf cf r \<longleftrightarrow>
     (tf \<noteq> [] \<longrightarrow> type_name (change_type r) = tf)
     \<and> (cf \<noteq> [] \<longrightarrow> context_name (context r) = cf)
     \<and> (q \<noteq> [] \<longrightarrow> sublist q (toLowerCase (join '' '' (filter (\<lambda>s. s \<noteq> []) (search_fields r)))))"
  by (simp add: keeps_def includes_iff_sublist hay_eq)

text \<open>
  C1, as amended. Whatever the dataset and the filter inputs, \<open>applyFilters\<close> keeps exactly
  the records whose change type is the selected one, if one is selected, whose context
  is the selected one, if one is selected, and, if the lower-cased and trimmed search
  string is not empty, whose search text contains it. The search text is the lower-cased
  string made of the non-empty search fields (file, property, old, new, joined old
  lines, joined new lines) with one space between two of them. No other field of a
  record is read.
\<close>

theorem applyFilters_keeps_exactly:
  "LAST_FILTERED (snd (applyFilters st)) =
     filter (\<lambda>r. (typeFilter_value st \<noteq> [] \<longrightarrow> type_name (change_type r) = typeFilter_value st)
               \<and> (ctxFilter_value st \<noteq> [] \<longrightarrow> context_name (context r) = ctxFilter_value st)
               \<and> (trim (toLowerCase (q_value st)) \<noteq> [] \<longrightarrow>
                    sublist (trim (toLowerCase (q_value st)))
                      (toLowerCase (join '' '' (filter (\<lambda>s. s \<noteq> []) (search_fields r))))))
       (DATA st)"
  (is "_ = ?rhs")
proof -
  have "LAST_FILTERED (snd (applyFilters st))
      = filter (keeps (trim (toLowerCase (q_value st))) (typeFilter_value st) (ctxFilter_value st))
          (DATA st)"
    by (simp add: applyFilters_frame)
  also have "\<dots> = ?rhs"
    by (rule filter_cong) (simp_all add: keeps_iff)
  finally show ?thesis .
qed

text \<open>
  C1 as stated, with the fields put together end to end, fails: with no change type and
  no context selected, the search for \<^verbatim>\<open>ab\<close> drops the record of the file \<^verbatim>\<open>a\<close> and the
  property \<^verbatim>\<open>b\<close>, although the concatenation of its fields contains \<^verbatim>\<open>ab\<close>; the text
  that is searched is \<^verbatim>\<open>a b 1 2\<close>.
\<close>

theorem applyFilters_concatenation_counterexample:
  "typeFilter_value search_ab = [] \<and> ctxFilter_value search_ab = []
   \<and> DATA search_ab = [record_a_b]
   \<and> trim (toLowerCase (q_value search_ab)) = ''ab''
   \<and> sublist (trim (toLowerCase (q_value search_ab))) (toLowerCase (concatenation record_a_b))
   \<and> LAST_FILTERED (snd (applyFilters search_ab)) = []"
  by (simp add: applyFilters_frame search_ab_def blank_page_def record_a_b_def keeps_def hay_def
        concatenation_def search_fields_def text_or_empty_def lines_or_empty_def
        toLowerCase_def toLowerCase_char_def trim_def is_white_space_def
        includes_iff_sublist [symmetric])

theorem applyFilters_keeps_exactly_witness:
  "LAST_FILTERED (snd (applyFilters
      (blank_page\<lparr>DATA := sample, q_value := ''  W365 '', typeFilter_value := ''replace''\<rparr>)))
   = [sample ! 1]"
  using applyFilters_keeps_exactly
    [of "blank_page\<lparr>DATA := sample, q_value := ''  W365 '', typeFilter_value := ''replace''\<rparr>"]
  by (simp add: blank_page_def sample_def search_fields_def text_or_empty_def lines_or_empty_def
        toLowerCase_def toLowerCase_char_def trim_def is_white_space_def
        includes_iff_sublist [symmetric])

section \<open>Properties of loading\<close>


lemma hideLoading_eq: "hideLoading st = st\<lparr>loadingEl := False\<rparr>"
  by (simp add: hideLoading_def)

lemma showLoading_eq: "showLoading st = st\<lparr>loadingEl := True\<rparr>"
  by (simp add: showLoading_def)

text \<open>
  C2. On each of the three input paths (file chooser, paste dialog, drop), a text that
  \<^verbatim>\<open>JSON.parse\<close> rejects or whose root is not an array adds one alert and leaves the
  rest of the page as it was: the dataset, the filtered list, the page number and the
  rendered summary, file list and pager (the drop also removes its loading indicator).
\<close>

theorem rejected_load_keeps_page:
  assumes "JSON_parse txt = None \<or> JSON_parse txt = Some JNonArray"
  shows "(\<exists>a. fileInput_change JSON_parse (Some \<lparr>blob_type = ty, blob_text = txt\<rparr>) st
               = st\<lparr>alerts := alerts st @ [a]\<rparr>)
       \<and> (\<exists>a. pasteApply_click JSON_parse (st\<lparr>pasteArea_value := txt\<rparr>)
               = st\<lparr>pasteArea_value := txt, alerts := alerts st @ [a]\<rparr>)
       \<and> (\<exists>a l. window_drop JSON_parse (Some \<lparr>blob_type = ty, blob_text = txt\<rparr>) st
               = st\<lparr>alerts := alerts st @ [a], loadingEl := l\<rparr>)"
proof (intro conjI)
  show "\<exists>a. fileInput_change JSON_parse (Some \<lparr>blob_type = ty, blob_text = txt\<rparr>) st
               = st\<lparr>alerts := alerts st @ [a]\<rparr>"
    using assms
    by (auto simp: fileInput_change_def fileInput_onload_def catch_alert_def show_alert_def)
  show "\<exists>a. pasteApply_click JSON_parse (st\<lparr>pasteArea_value := txt\<rparr>)
               = st\<lparr>pasteArea_value := txt, alerts := alerts st @ [a]\<rparr>"
    using assms
    by (auto simp: pasteApply_click_def catch_alert_def show_alert_def)
  show "\<exists>a l. window_drop JSON_parse (Some \<lparr>blob_type = ty, blob_text = txt\<rparr>) st
               = st\<lparr>alerts := alerts st @ [a], loadingEl := l\<rparr>"
  proof (cases "includes_str ty ''json'' \<or> includes_str ty ''text''")
    case False
    then have "window_drop JSON_parse (Some \<lparr>blob_type = ty, blob_text = txt\<rparr>) st
        = st\<lparr>alerts := alerts st @ [Please_drop_a_JSON_file], loadingEl := loadingEl st\<rparr>"
      by (simp add: window_drop_def show_alert_def)
    then show ?thesis by blast
  next
    case True
    then have "\<exists>a. window_drop JSON_parse (Some \<lparr>blob_type = ty, blob_text = txt\<rparr>) st
        = st\<lparr>alerts := alerts st @ [a], loadingEl := False\<rparr>"
      using assms
      by (auto simp: window_drop_def drop_onload_def catch_alert_def show_alert_def
            hideLoading_eq showLoading_eq)
    then show ?thesis by blast
  qed
qed

theorem rejected_load_keeps_page_witness:
  "(parse_three ''{}'' = None \<or> parse_three ''{}'' = Some JNonArray)
   \<and> DATA (fileInput_change parse_three
              (Some \<lparr>blob_type = ''application/json'', blob_text = ''{}''\<rparr>)
              (loadSample_click blank_page)) = DATA (loadSample_click blank_page)
   \<and> files_el (pasteApply_click parse_three
              ((loadSample_click blank_page)\<lparr>pasteArea_value := ''{}''\<rparr>))
       = files_el (loadSample_click blank_page)
   \<and> length (alerts (window_drop parse_three
              (Some \<lparr>blob_type = ''application/json'', blob_text = ''{}''\<rparr>)
              (loadSample_click blank_page)))
       = Suc (length (alerts (loadSample_click blank_page)))"
proof -
  have h: "parse_three ''{}'' = None \<or> parse_three ''{}'' = Some JNonArray"
    by (simp add: parse_three_def)
  from rejected_load_keeps_page
    [of parse_three "''{}''" "''application/json''" "loadSample_click blank_page", OF h]
  obtain a b c l where
    "fileInput_change parse_three
       (Some \<lparr>blob_type = ''application/json'', blob_text = ''{}''\<rparr>)
       (loadSample_click blank_page)
     = (loadSample_click blank_page)\<lparr>alerts := alerts (loadSample_click blank_page) @ [a]\<rparr>"
    "pasteApply_click parse_three ((loadSample_click blank_page)\<lparr>pasteArea_value := ''{}''\<rparr>)
     = (loadSample_click blank_page)\<lparr>pasteArea_value := ''{}'',
          alerts := alerts (loadSample_click blank_page) @ [b]\<rparr>"
    "window_drop parse_three
       (Some \<lparr>blob_type = ''application/json'', blob_text = ''{}''\<rparr>)
       (loadSample_click blank_page)
     = (loadSample_click blank_page)\<lparr>alerts := alerts (loadSample_click blank_page) @ [c],
          loadingEl := l\<rparr>"
    by blast
  with h show ?thesis by simp
qed







section \<open>Properties of the Change Extractor and of its records\<close>

lemma diff_lines_same: "diff_lines xs xs = map Keep xs"
  by (induction xs) simp_all

lemma collapse_kept: "collapse path i j [] [] (map Keep xs) = []"
  by (induction xs arbitrary: i j) (simp_all add: emit_def)

lemma block_diff_same: "block_diff path s s = []"
  by (simp add: block_diff_def diff_lines_same collapse_kept)

lemma kv_diff_same: "kv_diff path fmt es es = []"
  by (auto simp: kv_diff_def split: option.splits)

text \<open>
  C5. For a file whose old content and new content are the same string, the Extractor
  emits no record, whatever the path and the format.
\<close>

theorem extract_equal_contents: "extract_changes env path (Some s) (Some s) = []"
  by (simp add: extract_changes_def block_diff_same kv_diff_same split: option.splits)

lemma emit_shape:
  "r \<in> set (emit path i j removed added) \<Longrightarrow>
     context r = Block \<and> change_type r \<noteq> File_deleted \<and> old r = None \<and> new r = None
     \<and> old_lines r \<noteq> None \<and> new_lines r \<noteq> None"
  by (auto simp: emit_def split: if_splits)

lemma collapse_shape:
  "r \<in> set (collapse path i j removed added es) \<Longrightarrow>
     context r = Block \<and> change_type r \<noteq> File_deleted \<and> old r = None \<and> new r = None
     \<and> old_lines r \<noteq> None \<and> new_lines r \<noteq> None"
proof (induction path i j removed added es rule: collapse.induct)
  case (1 path i j removed added)
  then show ?case using emit_shape by simp
next
  case (2 path i j removed added l es)
  from "2.prems" have "r \<in> set (emit path i j removed added)
      \<or> r \<in> set (collapse path (i + int (length removed) + 1) (j + int (length added) + 1) [] [] es)"
    by simp
  then show ?case using emit_shape "2.IH" by blast
next
  case (3 path i j removed added l es)
  then show ?case by simp
next
  case (4 path i j removed added l es)
  then show ?case by simp
qed

lemma block_diff_shape:
  "r \<in> set (block_diff path oc nc) \<Longrightarrow>
     context r = Block \<and> change_type r \<noteq> File_deleted \<and> old r = None \<and> new r = None
     \<and> old_lines r \<noteq> None \<and> new_lines r \<noteq> None"
  unfolding block_diff_def by (rule collapse_shape)

lemma kv_diff_shape:
  assumes "r \<in> set (kv_diff path fmt olds news)"
  shows "(context r = Kv \<or> context r = Plist_kv) \<and> change_type r \<noteq> File_deleted
         \<and> (old r \<noteq> None \<or> new r \<noteq> None) \<and> old_lines r = None \<and> new_lines r = None"
proof -
  have ctx: "kv_context fmt = Kv \<or> kv_context fmt = Plist_kv"
    by (cases fmt) (simp_all add: kv_context_def)
  let ?ins = "\<lambda>k. case (map_of olds k, map_of news k) of
                        (None, Some nv) \<Rightarrow> [kv_record path fmt k Insert None (Some nv)]
                      | (Some ov, Some nv) \<Rightarrow>
                          if fst ov = fst nv then []
                          else [kv_record path fmt k Replace (Some ov) (Some nv)]
                      | _ \<Rightarrow> []"
  let ?del = "\<lambda>k. case (map_of olds k, map_of news k) of
                          (Some ov, None) \<Rightarrow> [kv_record path fmt k Delete (Some ov) None]
                        | _ \<Rightarrow> []"
  from assms have "(\<exists>k. r \<in> set (?ins k)) \<or> (\<exists>k. r \<in> set (?del k))"
    unfolding kv_diff_def by auto
  then obtain k where k: "r \<in> set (?ins k) \<or> r \<in> set (?del k)"
    by blast
  show ?thesis
  proof (cases "map_of olds k")
    case None
    show ?thesis
    proof (cases "map_of news k")
      case None
      with \<open>map_of olds k = None\<close> k show ?thesis by simp
    next
      case (Some nv)
      with \<open>map_of olds k = None\<close> k ctx show ?thesis
        by (auto simp: kv_record_def)
    qed
  next
    case (Some ov)
    show ?thesis
    proof (cases "map_of news k")
      case None
      with Some k ctx show ?thesis
        by (auto simp: kv_record_def)
    next
      case (Some nv)
      with \<open>map_of olds k = Some ov\<close> k ctx show ?thesis
        by (auto simp: kv_record_def split: if_splits)
    qed
  qed
qed

lemma extract_shape:
  assumes "r \<in> set (extract_changes env path oc nc)"
  shows "(context r = Block \<and> old r = None \<and> new r = None
            \<and> old_lines r \<noteq> None \<and> new_lines r \<noteq> None
            \<and> (change_type r = File_deleted \<longrightarrow> old_lines r = Some [] \<and> new_lines r = Some []))
         \<or> ((context r = Kv \<or> context r = Plist_kv) \<and> change_type r \<noteq> File_deleted
            \<and> (old r \<noteq> None \<or> new r \<noteq> None) \<and> old_lines r = None \<and> new_lines r = None)"
proof (cases nc)
  case None
  with assms show ?thesis by (simp add: extract_changes_def)
next
  case (Some n)
  let ?oc = "case oc of None \<Rightarrow> [] | Some s \<Rightarrow> s"
  from assms Some have "r \<in> set (block_diff path ?oc n)
      \<or> (\<exists>fmt olds news. r \<in> set (kv_diff path fmt olds news))"
    by (auto simp: extract_changes_def Let_def split: option.splits)
  then show ?thesis
    using block_diff_shape [of r path ?oc n] kv_diff_shape [of r path] by blast
qed

text \<open>
  C6. Every record the Extractor emits populates the pair of fields its context selects:
  a kv or plist-kv record has an old or a new value and no line content, a block record
  has its line sequences and no old or new value. Every record of the built-in sample
  does too. The card of a kv or plist-kv record does not depend on the line content,
  and the card of a block record does not depend on the old and new values.
\<close>

theorem pair_selected_by_context:
  "(\<forall>r \<in> set (extract_changes env path old_content new_content). pair_by_context r)
   \<and> (\<forall>r \<in> set sample. pair_by_context r)
   \<and> ((context ch = Kv \<or> context ch = Plist_kv) \<longrightarrow>
        renderChangeItem (ch\<lparr>old_lines := ls, new_lines := ls'\<rparr>) idx = renderChangeItem ch idx)
   \<and> (context ch = Block \<longrightarrow>
        renderChangeItem (ch\<lparr>old := v, new := v'\<rparr>) idx = renderChangeItem ch idx)"
proof (intro conjI)
  show "\<forall>r \<in> set (extract_changes env path old_content new_content). pair_by_context r"
  proof
    fix r assume "r \<in> set (extract_changes env path old_content new_content)"
    from extract_shape [OF this] show "pair_by_context r"
      by (auto simp: pair_by_context_def lines_or_empty_def)
  qed
  show "\<forall>r \<in> set sample. pair_by_context r"
    by (simp add: sample_def pair_by_context_def lines_or_empty_def)
  show "(context ch = Kv \<or> context ch = Plist_kv) \<longrightarrow>
        renderChangeItem (ch\<lparr>old_lines := ls, new_lines := ls'\<rparr>) idx = renderChangeItem ch idx"
    by (auto simp: renderChangeItem_def typeBadge_def line_of_def split: option.splits)
  show "context ch = Block \<longrightarrow>
        renderChangeItem (ch\<lparr>old := v, new := v'\<rparr>) idx = renderChangeItem ch idx"
    by (simp add: renderChangeItem_def typeBadge_def line_of_def split: option.splits)
qed

text \<open>
  C7. An absent new content gives one record, of type file-deleted. Every file-deleted
  record the Extractor emits has the context block and empty line-content fields, and
  so has the file-deleted record of the built-in sample. Such a record is rendered as
  the "File removed" card, which shows the badge and the copy button and no line
  content.
\<close>

theorem file_deleted_has_no_lines:
  "(\<exists>r. extract_changes env path old_content None = [r] \<and> change_type r = File_deleted)
   \<and> (\<forall>r \<in> set (extract_changes env path old_content new_content).
         change_type r = File_deleted \<longrightarrow>
           context r = Block \<and> old_lines r = Some [] \<and> new_lines r = Some [])
   \<and> (\<forall>r \<in> set sample.
         change_type r = File_deleted \<longrightarrow>
           context r = Block \<and> old_lines r = Some [] \<and> new_lines r = Some [])
   \<and> (change_type ch = File_deleted \<and> context ch = Block \<longrightarrow>
        renderChangeItem ch idx = File_removed_card (typeBadge ch) idx)"
proof (intro conjI)
  show "\<exists>r. extract_changes env path old_content None = [r] \<and> change_type r = File_deleted"
    by (simp add: extract_changes_def)
  show "\<forall>r \<in> set (extract_changes env path old_content new_content).
         change_type r = File_deleted \<longrightarrow>
           context r = Block \<and> old_lines r = Some [] \<and> new_lines r = Some []"
    using extract_shape [of _ env path old_content new_content] by blast
  show "\<forall>r \<in> set sample.
         change_type r = File_deleted \<longrightarrow>
           context r = Block \<and> old_lines r = Some [] \<and> new_lines r = Some []"
    by (simp add: sample_def)
  show "change_type ch = File_deleted \<and> context ch = Block \<longrightarrow>
        renderChangeItem ch idx = File_removed_card (typeBadge ch) idx"
    by (simp add: renderChangeItem_def)
qed

lemma example_extract:
  "extract_changes example_env ''app/config.json'' (Some config_v1) (Some config_v2) =
     [kv_record ''app/config.json'' Json_like ''timeout'' Replace (Some (''30'', 1)) (Some (''60'', 1)),
      kv_record ''app/config.json'' Json_like ''retries'' Insert None (Some (''3'', 1))]"
  by (simp add: extract_changes_def example_env_def config_v1_def config_v2_def kv_diff_def
        suffix_to_prefix)

theorem pair_selected_by_context_witness:
  "pair_by_context (hd (extract_changes example_env ''app/config.json'' (Some config_v1) (Some config_v2)))
   \<and> pair_by_context (sample ! 0) \<and> pair_by_context (sample ! 1)
   \<and> renderChangeItem ((sample ! 1)\<lparr>old_lines := Some [''x''], new_lines := Some [''y'']\<rparr>) 0
       = renderChangeItem (sample ! 1) 0
   \<and> renderChangeItem ((sample ! 0)\<lparr>old := Some ''x'', new := Some ''y''\<rparr>) 0
       = renderChangeItem (sample ! 0) 0"
proof -
  have kv: "context (sample ! 1) = Kv \<or> context (sample ! 1) = Plist_kv"
    and bl: "context (sample ! 0) = Block"
    by (simp_all add: sample_def)
  have mem: "hd (extract_changes example_env ''app/config.json'' (Some config_v1) (Some config_v2))
      \<in> set (extract_changes example_env ''app/config.json'' (Some config_v1) (Some config_v2))"
    by (simp add: example_extract)
  have s: "sample ! 0 \<in> set sample" "sample ! 1 \<in> set sample"
    by (simp_all add: sample_def)
  from pair_selected_by_context
    [where env = example_env and path = "''app/config.json''" and old_content = "Some config_v1"
      and new_content = "Some config_v2" and ch = "sample ! 1" and idx = 0
      and ls = "Some [''x'']" and ls' = "Some [''y'']"]
    pair_selected_by_context
    [where env = example_env and path = "''app/config.json''" and old_content = "Some config_v1"
      and new_content = "Some config_v2" and ch = "sample ! 0" and idx = 0
      and v = "Some ''x''" and v' = "Some ''y''"]
    kv bl mem s
  show ?thesis by blast
qed

theorem file_deleted_has_no_lines_witness:
  "(\<exists>r. extract_changes example_env ''app/config.json'' (Some config_v2) None = [r]
        \<and> change_type r = File_deleted)
   \<and> change_type (sample ! 2) = File_deleted \<and> context (sample ! 2) = Block
   \<and> old_lines (sample ! 2) = Some [] \<and> new_lines (sample ! 2) = Some []
   \<and> renderChangeItem (sample ! 2) 2 = File_removed_card (typeBadge (sample ! 2)) 2"
proof -
  have d: "change_type (sample ! 2) = File_deleted \<and> context (sample ! 2) = Block"
    and s: "sample ! 2 \<in> set sample"
    by (simp_all add: sample_def)
  from file_deleted_has_no_lines
    [where env = example_env and path = "''app/config.json''" and old_content = "Some config_v2"
      and new_content = None and ch = "sample ! 2" and idx = 2] d s
  show ?thesis by blast
qed

end
